theory Spec2Isabelle
  imports Main "HOL-Library.Sublist"
begin

section \<open>Python values used by the application\<close>

text \<open>
  A Python \<open>str\<close> is a sequence of code points. The model uses \<open>string\<close>, one
  \<open>char\<close> per code point, so it covers the strings whose code points are below 256
  (Latin-1); \<open>length\<close> is Python's \<open>len\<close>. The classification of characters below
  is the one \<open>str.isspace\<close>, \<open>str.lower\<close> and the \<open>re\<close> module (Unicode mode, the
  default for \<open>str\<close> patterns) use on that range.
\<close>

definition is_space :: "char \<Rightarrow> bool" where
  "is_space c =
     (let n = (of_char c :: nat)
      in (9 \<le> n \<and> n \<le> 13) \<or> (28 \<le> n \<and> n \<le> 32) \<or> n = 133 \<or> n = 160)"

definition is_upper :: "char \<Rightarrow> bool" where
  "is_upper c =
     (let n = (of_char c :: nat)
      in (65 \<le> n \<and> n \<le> 90) \<or> (192 \<le> n \<and> n \<le> 222 \<and> n \<noteq> 215))"

definition lower_char :: "char \<Rightarrow> char" where
  "lower_char c = (if is_upper c then char_of ((of_char c :: nat) + 32) else c)"

text \<open>\<open>str.lower()\<close>\<close>

definition lower :: "string \<Rightarrow> string" where
  "lower s = map lower_char s"

text \<open>\<open>str.strip()\<close>: leading and trailing whitespace removed.\<close>

definition strip :: "string \<Rightarrow> string" where
  "strip s = rev (dropWhile is_space (rev (dropWhile is_space s)))"

text \<open>\<open>s.startswith(p)\<close> and the substring test \<open>sub in s\<close>.\<close>

fun startswith :: "string \<Rightarrow> string \<Rightarrow> bool" where
  "startswith s [] = True"
| "startswith [] (p # ps) = False"
| "startswith (c # cs) (p # ps) = (if c = p then startswith cs ps else False)"

fun str_contains :: "string \<Rightarrow> string \<Rightarrow> bool" where
  "str_contains sub [] = (sub = [])"
| "str_contains sub (c # cs) = (if startswith (c # cs) sub then True else str_contains sub cs)"

text \<open>\<open>any(k in s for k in ks)\<close>\<close>

definition any_in :: "string list \<Rightarrow> string \<Rightarrow> bool" where
  "any_in ks s = list_ex (\<lambda>k. str_contains k s) ks"

text \<open>\<open>str(n)\<close> for an \<open>int\<close>, as an f-string formats it.\<close>

definition digit_char :: "nat \<Rightarrow> char" where
  "digit_char d = char_of (48 + d)"

fun str_nat :: "nat \<Rightarrow> string" where
  "str_nat n = (if n < 10 then [digit_char n] else str_nat (n div 10) @ [digit_char (n mod 10)])"

declare str_nat.simps [simp del]

definition str_int :: "int \<Rightarrow> string" where
  "str_int i = (if i < 0 then CHR ''-'' # str_nat (nat (- i)) else str_nat (nat i))"

text \<open>
  Exceptions. \<open>except ValueError\<close> catches the first constructor, \<open>except Exception\<close>
  both; the string is what \<open>str(e)\<close> returns.
\<close>

datatype py_exception = ValueError string | OtherException string

fun str_exc :: "py_exception \<Rightarrow> string" where
  "str_exc (ValueError m) = m"
| "str_exc (OtherException m) = m"

text \<open>Values that can be passed where a \<open>str\<close> is expected.\<close>

datatype py_value = PyStr string | PyNone | PyInt int | PyBool bool

text \<open>Truthiness, the \<open>not text\<close> test.\<close>

fun truthy :: "py_value \<Rightarrow> bool" where
  "truthy (PyStr s) = (s \<noteq> [])"
| "truthy PyNone = False"
| "truthy (PyInt i) = (i \<noteq> 0)"
| "truthy (PyBool b) = b"

section \<open>Configuration (\<open>app/config.py\<close>)\<close>

record security_config =
  max_query_length :: int
  max_job_text_length :: int
  min_job_text_length :: int

record data_paths =
  cv_path :: string
  about_me_path :: string
  vector_db_path :: string

text \<open>
  \<open>llm_provider\<close>, \<open>llm_model\<close>, \<open>embedding_model\<close>, \<open>ollama_endpoint\<close>,
  \<open>candidate_name\<close> and \<open>retrieval_k\<close> are \<open>config.llm.provider\<close>, \<open>config.llm.model\<close>,
  \<open>config.embedding.model\<close>, \<open>config.ollama.endpoint\<close>, \<open>config.candidate.name\<close> and
  \<open>config.vectorstore.retrieval_k\<close>. The four prompt templates are not fields of
  \<open>AppConfig\<close>: they exist only when the YAML files supply them (\<open>extra = "allow"\<close>), so
  each is optional and reading a missing one raises \<open>AttributeError\<close>.
\<close>

record app_config =
  security :: security_config
  data :: data_paths
  llm_provider :: string
  llm_model :: string
  embedding_model :: string
  ollama_endpoint :: string
  candidate_name :: string
  retrieval_k :: int
  chat_fallback_response :: string
  chat_system_prompt :: "string option"
  summary_prompt_template :: "string option"
  job_matching_system_prompt :: "string option"
  job_matching_analysis_prompt :: "string option"

text \<open>The defaults of \<open>SecurityConfig\<close>, \<open>DataPaths\<close>, \<open>CandidateConfig\<close> and \<open>AppConfig\<close>.\<close>

definition default_config :: app_config where
  "default_config =
     \<lparr> security = \<lparr> max_query_length = 1000, max_job_text_length = 5000,
                    min_job_text_length = 50 \<rparr>,
       data = \<lparr> cv_path = ''data/Harsh Jaiswal Resume 4Dec.pdf'',
                about_me_path = ''data/about_me.md'',
                vector_db_path = ''data/vector_db'' \<rparr>,
       llm_provider = ''openai'',
       llm_model = ''gpt-4o-mini'',
       embedding_model = ''text-embedding-3-small'',
       ollama_endpoint = ''http://localhost:11434'',
       candidate_name = ''Harsh Jaiswal'',
       retrieval_k = 8,
       chat_fallback_response =
         ''I'' @ [CHR 0x27] @ ''m sorry, but I cannot provide a response to that query.'',
       chat_system_prompt = None,
       summary_prompt_template = None,
       job_matching_system_prompt = None,
       job_matching_analysis_prompt = None \<rparr>"


section \<open>Validation (\<open>app/modules/guardrails.py\<close>)\<close>

text \<open>
  The Guardrails library is optional. When it is installed its validators are external
  classifiers: each is a function telling whether \<open>validate(text)\<close> raises, and with
  which exception (building a guard with \<open>Guard().use\<close> is taken not to raise). When it
  is missing, \<open>MockGuard\<close> is used.
\<close>

record guardrails =
  GUARDRAILS_AVAILABLE :: bool
  toxic_input :: "string \<Rightarrow> py_exception option"
  profanity :: "string \<Rightarrow> py_exception option"
  toxic_output :: "string \<Rightarrow> py_exception option"
  reading_time :: "string \<Rightarrow> py_exception option"

text \<open>\<open>MockGuard.validate\<close>\<close>

definition MockGuard_validate :: "string \<Rightarrow> py_exception option" where
  "MockGuard_validate text =
     (if any_in [''fuck'', ''shit'', ''damn''] (lower text)
      then Some (OtherException ''Content contains inappropriate language'')
      else None)"

text \<open>The library not installed: only \<open>MockGuard\<close> is ever called.\<close>

definition no_guardrails :: guardrails where
  "no_guardrails =
     \<lparr> GUARDRAILS_AVAILABLE = False, toxic_input = (\<lambda>_. None), profanity = (\<lambda>_. None),
       toxic_output = (\<lambda>_. None), reading_time = (\<lambda>_. None) \<rparr>"

text \<open>Running validators in sequence: the first that raises ends the sequence.\<close>

fun first_raise :: "py_exception option list \<Rightarrow> py_exception option" where
  "first_raise [] = None"
| "first_raise (None # rs) = first_raise rs"
| "first_raise (Some e # rs) = Some e"

text \<open>The content checks opening the \<open>try\<close> block of \<open>validate_query_input\<close>.\<close>

definition query_content_check :: "guardrails \<Rightarrow> string \<Rightarrow> py_exception option" where
  "query_content_check g query =
     (if GUARDRAILS_AVAILABLE g then first_raise [toxic_input g query, profanity g query]
      else MockGuard_validate query)"

definition msg_too_short :: string where
  "msg_too_short = ''Query must be at least 3 characters long''"

definition msg_too_long :: "int \<Rightarrow> string" where
  "msg_too_long m = ''Query too long. Maximum '' @ str_int m @ '' characters allowed.''"

definition msg_irrelevant :: string where
  "msg_irrelevant =
     ''Please ask questions related to professional qualifications and experience''"

text \<open>The body of the \<open>try\<close> block of \<open>validate_query_input\<close>.\<close>

definition validate_query_try :: "guardrails \<Rightarrow> app_config \<Rightarrow> string \<Rightarrow> py_exception + string" where
  "validate_query_try g cfg query =
     (case query_content_check g query of
        Some e \<Rightarrow> Inl e
      | None \<Rightarrow>
          if length (strip query) < 3 then Inl (ValueError msg_too_short)
          else if int (length query) > max_query_length (security cfg)
            then Inl (ValueError (msg_too_long (max_query_length (security cfg))))
          else if any_in [''weather'', ''sports'', ''cooking'', ''movies'', ''games''] (lower query)
            then Inl (ValueError msg_irrelevant)
          else Inr query)"

text \<open>The \<open>except Exception as e\<close> handler of \<open>validate_query_input\<close>.\<close>

definition validate_query_except :: "py_exception \<Rightarrow> py_exception" where
  "validate_query_except e =
     (let error_message = lower (str_exc e)
      in if str_contains ''injection'' error_message
           then ValueError ''Invalid query format detected. Please rephrase your question''
         else if any_in [''profanity'', ''toxic:''] error_message
           then ValueError ''Please rephrase your question professionally''
         else if any_in
             [''query must be at least 3 characters long'',
              ''query too long'',
              ''please ask questions related to professional qualifications and experience'']
             error_message
           then e
         else ValueError ''Unable to process this query. Please rephrase your question'')"

definition validate_query_input :: "guardrails \<Rightarrow> app_config \<Rightarrow> string \<Rightarrow> py_exception + string" where
  "validate_query_input g cfg query =
     (case validate_query_try g cfg query of
        Inr q \<Rightarrow> Inr q
      | Inl e \<Rightarrow> Inl (validate_query_except e))"

text \<open>The checks in the \<open>try\<close> block of \<open>validate_response_output\<close>.\<close>

definition response_content_check :: "guardrails \<Rightarrow> string \<Rightarrow> py_exception option" where
  "response_content_check g response =
     (if GUARDRAILS_AVAILABLE g
      then first_raise [toxic_output g response, profanity g response, reading_time g response]
      else MockGuard_validate response)"

definition validate_response_output :: "guardrails \<Rightarrow> app_config \<Rightarrow> string \<Rightarrow> py_exception + string" where
  "validate_response_output g cfg response =
     (case response_content_check g response of
        None \<Rightarrow> Inr response
      | Some e \<Rightarrow> Inr (chat_fallback_response cfg))"

text \<open>
  The regular expressions of \<open>validate_job_text\<close>, all searched with \<open>re.IGNORECASE\<close>.
  \<open>\w\<close> is the class of word characters, \<open>\s\<close> is \<open>is_space\<close>, and a literal matches
  a character of the text whose lower case is the literal.
\<close>

definition is_word_char :: "char \<Rightarrow> bool" where
  "is_word_char c =
     (let n = (of_char c :: nat)
      in (48 \<le> n \<and> n \<le> 57) \<or> (65 \<le> n \<and> n \<le> 90) \<or> n = 95 \<or> (97 \<le> n \<and> n \<le> 122)
         \<or> n = 170 \<or> n = 178 \<or> n = 179 \<or> n = 181 \<or> n = 185 \<or> n = 186
         \<or> (188 \<le> n \<and> n \<le> 190) \<or> (192 \<le> n \<and> n \<le> 214) \<or> (216 \<le> n \<and> n \<le> 246)
         \<or> (248 \<le> n \<and> n \<le> 255))"

text \<open>
  \<open>\b\<close> at a position: \<open>prev\<close> tells whether the character before it is a word
  character (\<open>False\<close> at the start of the text), the list is the text from the position on.
\<close>

fun word_boundary :: "bool \<Rightarrow> string \<Rightarrow> bool" where
  "word_boundary prev [] = prev"
| "word_boundary prev (c # cs) = (prev \<noteq> is_word_char c)"

text \<open>
  One alternative of \<open>(k1|k2|...)\b\<close> matched at the start of \<open>text\<close>;
  \<open>ltext\<close> is the same suffix of the lower-cased text.
\<close>

definition match_keyword_here :: "string \<Rightarrow> string \<Rightarrow> string \<Rightarrow> bool" where
  "match_keyword_here text ltext kw =
     (if startswith ltext kw
      then word_boundary (is_word_char (last (take (length kw) text))) (drop (length kw) text)
      else False)"

text \<open>
  \<open>re.search(r"\b(k1|k2|...)\b", text, re.IGNORECASE)\<close> for non-empty keywords: the
  first position with a word boundary where an alternative matches.
\<close>

fun search_keywords_from :: "string list \<Rightarrow> bool \<Rightarrow> string \<Rightarrow> string \<Rightarrow> bool" where
  "search_keywords_from kws prev (c # cs) (l # ls) =
     (if word_boundary prev (c # cs) then
        (if list_ex (match_keyword_here (c # cs) (l # ls)) kws then True
         else search_keywords_from kws (is_word_char c) cs ls)
      else search_keywords_from kws (is_word_char c) cs ls)"
| "search_keywords_from kws prev text ltext = False"

definition search_keywords :: "string list \<Rightarrow> string \<Rightarrow> bool" where
  "search_keywords kws text = search_keywords_from kws False text (lower text)"

text \<open>\<open>re.search(tag, text, re.IGNORECASE)\<close> for a literal such as \<open><script\<close>.\<close>

definition search_literal :: "string \<Rightarrow> string \<Rightarrow> bool" where
  "search_literal pattern text = str_contains pattern (lower text)"

text \<open>
  \<open>on\w+\s*=\<close> matched at the start of \<open>text\<close> (\<open>ltext\<close> is its lower
  case): \<open>on\<close>, the longest run of word characters (at least one), the longest run of whitespace, then \<open>=\<close>. Word characters,
  whitespace and \<open>=\<close> are disjoint, so backtracking finds no other match.
\<close>

definition match_event_here :: "string \<Rightarrow> string \<Rightarrow> bool" where
  "match_event_here text ltext =
     (if startswith ltext ''on''
      then (let rest = drop 2 text; after_word = dropWhile is_word_char rest
            in if after_word = rest then False
               else (case dropWhile is_space after_word of
                       [] \<Rightarrow> False | c # _ \<Rightarrow> c = CHR ''=''))
      else False)"

fun search_event_from :: "string \<Rightarrow> string \<Rightarrow> bool" where
  "search_event_from (c # cs) (l # ls) =
     (if match_event_here (c # cs) (l # ls) then True else search_event_from cs ls)"
| "search_event_from text ltext = False"

text \<open>\<open>re.search(r"on\w+\s*=", text, re.IGNORECASE)\<close>\<close>

definition search_event :: "string \<Rightarrow> bool" where
  "search_event text = search_event_from text (lower text)"

definition english_keywords :: "string list" where
  "english_keywords =
     [''job'', ''position'', ''role'', ''responsibilities'', ''skills'',
      ''qualifications'', ''experience'', ''requirements'']"

definition german_keywords :: "string list" where
  "german_keywords =
     [''arbeit'', ''position'', ''rolle'', ''verantwortlichkeiten'',
      ''f'' @ [CHR 0xE4] @ ''higkeiten'',
      ''qualifikationen'', ''erfahrung'', ''anforderungen'']"

definition dangerous_tags :: "string list" where
  "dangerous_tags =
     [''<script'', ''<iframe'', ''<object'', ''<embed'', ''<form'', ''<img'', ''<svg'',
      ''<math'', ''<link'', ''<style'', ''<video'', ''<audio'', ''<base'', ''<meta'',
      ''<body'', ''<html'', ''<input'', ''<button'']"

definition msg_job_too_long :: "int \<Rightarrow> string" where
  "msg_job_too_long m =
     ''Job description text is too long. Maximum '' @ str_int m @ '' characters allowed.''"

definition msg_job_no_keywords :: string where
  "msg_job_no_keywords =
     ''Job description text must contain key sections like '' @ [CHR 0x27] @ ''experience''
     @ [CHR 0x27] @ '', '' @ [CHR 0x27] @ ''position'' @ [CHR 0x27] @ '', '' @ [CHR 0x27]
     @ ''role'' @ [CHR 0x27] @ '', etc.''"

definition msg_job_tags :: string where
  "msg_job_tags = ''Job description text contains potentially harmful HTML tags.''"

definition msg_job_events :: string where
  "msg_job_events = ''Job description text contains potentially harmful event handlers.''"

text \<open>\<open>isinstance(text, str)\<close>\<close>

fun is_str :: "py_value \<Rightarrow> bool" where
  "is_str (PyStr s) = True"
| "is_str v = False"

text \<open>\<open>InputValidator.validate_job_text\<close>\<close>

definition validate_job_text :: "app_config \<Rightarrow> py_value \<Rightarrow> py_exception + bool" where
  "validate_job_text cfg v =
     (if \<not> truthy v \<or> \<not> is_str v then Inr False
      else case v of
        PyStr raw \<Rightarrow>
          (let text = strip raw;
               min_length = min_job_text_length (security cfg);
               max_length = max_job_text_length (security cfg)
           in if int (length text) < min_length then Inr False
              else if int (length text) > max_length
                then Inl (ValueError (msg_job_too_long max_length))
              else if \<not> (search_keywords english_keywords text
                         \<or> search_keywords german_keywords text)
                then Inl (ValueError msg_job_no_keywords)
              else if list_ex (\<lambda>pattern. search_literal pattern text) dangerous_tags
                then Inl (ValueError msg_job_tags)
              else if search_event text
                then Inl (ValueError msg_job_events)
              else Inr True)
      | _ \<Rightarrow> Inr False)"

section \<open>Documents and the external collaborators\<close>

text \<open>A LangChain \<open>Document\<close>; \<open>metadata\<close> is a dictionary.\<close>

record document =
  page_content :: string
  metadata :: "string \<rightharpoonup> string"

text \<open>\<open>doc.metadata.get("source", "unknown")\<close>\<close>

definition metadata_source :: "document \<Rightarrow> string" where
  "metadata_source doc = (case metadata doc ''source'' of None \<Rightarrow> ''unknown'' | Some s \<Rightarrow> s)"

text \<open>The model objects, named after their constructors and holding the model name.\<close>

datatype embeddings = OllamaEmbeddings string string | OpenAIEmbeddings string

datatype language_model = ChatOllama string | ChatOpenAI string

text \<open>A \<open>Chroma\<close> object: a handle on the collection persisted in a directory.\<close>

record vectorstore =
  persist_directory :: string
  embedding_function :: embeddings

datatype message = HumanMessage string | AIMessage string

text \<open>
  The composed chains: a stuff-documents chain over a model and a prompt, and the chat
  chain over a retriever (index and depth \<open>k\<close>), a model and the system prompt.
\<close>

datatype chain =
  StuffDocumentsChain language_model string
| RetrievalChain vectorstore int language_model string

text \<open>\<open>langsmith.get_current_run_tree()\<close>: the current run, if tracing is on.\<close>

record run_tree =
  start_time :: string

text \<open>
  Everything outside the repository that a call can observe: the file system, the document
  loaders, the text splitter, the model and index constructors, the index, the chains of
  LangChain and the tracing run. A constructor is represented by the exception it raises,
  if any; a call by the exception it raises or the value it returns.
\<close>

record world =
  path_exists :: "string \<Rightarrow> bool"
  listdir :: "string \<Rightarrow> py_exception + string list"
  path_suffix :: "string \<Rightarrow> string"
  pdf_load :: "string \<Rightarrow> py_exception + document list"
  text_load :: "string \<Rightarrow> string option \<Rightarrow> py_exception + document list"
  split_documents :: "nat \<Rightarrow> nat \<Rightarrow> document list \<Rightarrow> py_exception + document list"
  embeddings_init :: "embeddings \<Rightarrow> py_exception option"
  llm_init :: "language_model \<Rightarrow> py_exception option"
  chroma_init :: "string \<Rightarrow> embeddings \<Rightarrow> py_exception option"
  chroma_from_documents :: "document list \<Rightarrow> embeddings \<Rightarrow> string \<Rightarrow> py_exception option"
  collection_count :: "vectorstore \<Rightarrow> py_exception + nat"
  retriever_invoke :: "vectorstore \<Rightarrow> int \<Rightarrow> string \<Rightarrow> py_exception + document list"
  format_fields :: "string \<Rightarrow> string \<Rightarrow> py_exception + string"
  stuff_chain_init :: "language_model \<Rightarrow> string \<Rightarrow> py_exception option"
  history_aware_retriever_init :: "vectorstore \<Rightarrow> language_model \<Rightarrow> py_exception option"
  retrieval_chain_init :: "vectorstore \<Rightarrow> language_model \<Rightarrow> string \<Rightarrow> py_exception option"
  retrieval_chain_invoke ::
    "chain \<Rightarrow> string \<Rightarrow> message list \<Rightarrow> py_exception + (string \<times> document list)"
  stuff_chain_invoke :: "chain \<Rightarrow> document list \<Rightarrow> py_exception + string"
  current_run :: "run_tree option"

text \<open>Reading a configuration attribute that the YAML files may not have supplied.\<close>

definition config_attr :: "string \<Rightarrow> string option \<Rightarrow> py_exception + string" where
  "config_attr name v =
     (case v of
        None \<Rightarrow> Inl (OtherException
          ([CHR 0x27] @ ''AppConfig'' @ [CHR 0x27] @ '' object has no attribute ''
           @ [CHR 0x27] @ name @ [CHR 0x27]))
      | Some s \<Rightarrow> Inr s)"

text \<open>
  \<open>template.format(candidate_name=name)\<close>: a template without braces is returned as it
  is; replacement fields and brace escapes are left to \<open>format_fields\<close>.
\<close>

definition py_format :: "world \<Rightarrow> string \<Rightarrow> string \<Rightarrow> py_exception + string" where
  "py_format w template name =
     (if CHR ''{'' \<notin> set template \<and> CHR ''}'' \<notin> set template then Inr template
      else format_fields w template name)"

text \<open>\<open>os.path.join(a, b)\<close> for a relative \<open>b\<close>\<close>

definition path_join :: "string \<Rightarrow> string \<Rightarrow> string" where
  "path_join a b = (if a = [] \<or> last a = CHR ''/'' then a @ b else a @ ''/'' @ b)"

section \<open>Model access (\<open>app/modules/model_provider.py\<close>)\<close>

definition get_language_model :: "world \<Rightarrow> app_config \<Rightarrow> py_exception + language_model" where
  "get_language_model w cfg =
     (let model =
            (if str_contains ''ollama'' (lower (llm_provider cfg))
             then ChatOllama (llm_model cfg) else ChatOpenAI (llm_model cfg))
      in case llm_init w model of Some e \<Rightarrow> Inl e | None \<Rightarrow> Inr model)"

definition get_embedding_model :: "world \<Rightarrow> app_config \<Rightarrow> py_exception + embeddings" where
  "get_embedding_model w cfg =
     (let model_name = lower (embedding_model cfg);
          model =
            (if str_contains ''ollama'' model_name
             then OllamaEmbeddings (embedding_model cfg) (ollama_endpoint cfg)
             else OpenAIEmbeddings (embedding_model cfg))
      in case embeddings_init w model of Some e \<Rightarrow> Inl e | None \<Rightarrow> Inr model)"

section \<open>Retrieval index and document source (\<open>app/modules/vectorstore_provider.py\<close>)\<close>

text \<open>\<open>for doc in docs: doc.metadata["source"] = src\<close>\<close>

definition tag_source :: "string \<Rightarrow> document list \<Rightarrow> document list" where
  "tag_source src docs = map (\<lambda>doc. doc\<lparr>metadata := (metadata doc)(''source'' \<mapsto> src)\<rparr>) docs"

text \<open>The two \<open>try\<close> blocks of \<open>setup_vectorstore\<close>, before their \<open>except\<close> clauses.\<close>

definition cv_loader_load :: "world \<Rightarrow> app_config \<Rightarrow> py_exception + document list" where
  "cv_loader_load w cfg =
     (let cv_file = cv_path (data cfg)
      in if lower (path_suffix w cv_file) = ''.pdf'' then pdf_load w cv_file
         else text_load w cv_file (Some ''utf-8''))"

definition load_cv_documents :: "world \<Rightarrow> app_config \<Rightarrow> py_exception + document list" where
  "load_cv_documents w cfg =
     (case cv_loader_load w cfg of
        Inl e \<Rightarrow> Inl e
      | Inr cv_documents \<Rightarrow> Inr (tag_source ''cv'' cv_documents))"

definition load_about_documents :: "world \<Rightarrow> app_config \<Rightarrow> py_exception + document list" where
  "load_about_documents w cfg =
     (case text_load w (about_me_path (data cfg)) None of
        Inl e \<Rightarrow> Inl e
      | Inr about_documents \<Rightarrow> Inr (tag_source ''about_me'' about_documents))"

text \<open>\<open>VectorStoreManager.setup_vectorstore\<close>\<close>

definition setup_vectorstore :: "world \<Rightarrow> app_config \<Rightarrow> py_exception + vectorstore" where
  "setup_vectorstore w cfg =
     (let cv_documents = (case load_cv_documents w cfg of Inl e \<Rightarrow> [] | Inr docs \<Rightarrow> docs);
          about_documents = (case load_about_documents w cfg of Inl e \<Rightarrow> [] | Inr docs \<Rightarrow> docs);
          all_documents = cv_documents @ about_documents
      in case split_documents w 1000 200 all_documents of
           Inl e \<Rightarrow> Inl e
         | Inr document_chunks \<Rightarrow>
             (case get_embedding_model w cfg of
                Inl e \<Rightarrow> Inl e
              | Inr emb_fn \<Rightarrow>
                  (case chroma_from_documents w document_chunks emb_fn
                          (vector_db_path (data cfg)) of
                     Some e \<Rightarrow> Inl e
                   | None \<Rightarrow>
                       Inr \<lparr> persist_directory = vector_db_path (data cfg),
                             embedding_function = emb_fn \<rparr>)))"

text \<open>The \<open>try\<close> block of \<open>_is_vectorstore_populated\<close>.\<close>

definition populated_probe :: "world \<Rightarrow> app_config \<Rightarrow> string \<Rightarrow> py_exception + bool" where
  "populated_probe w cfg db_path =
     (case listdir w db_path of
        Inl e \<Rightarrow> Inl e
      | Inr entries \<Rightarrow>
          if entries = [] then Inr False
          else if \<not> list_ex (\<lambda>file. path_exists w (path_join db_path file))
                      [''chroma.sqlite3'', ''index'']
            then Inr False
          else (case get_embedding_model w cfg of
                  Inl e \<Rightarrow> Inl e
                | Inr emb_fn \<Rightarrow>
                    (case chroma_init w db_path emb_fn of
                       Some e \<Rightarrow> Inl e
                     | None \<Rightarrow>
                         (case collection_count w
                                 \<lparr> persist_directory = db_path,
                                   embedding_function = emb_fn \<rparr> of
                            Inl e \<Rightarrow> Inl e
                          | Inr n \<Rightarrow> if n = 0 then Inr False else Inr True))))"

text \<open>\<open>VectorStoreManager._is_vectorstore_populated\<close>: any exception means \<open>False\<close>.\<close>

definition is_vectorstore_populated :: "world \<Rightarrow> app_config \<Rightarrow> string \<Rightarrow> bool" where
  "is_vectorstore_populated w cfg db_path =
     (case populated_probe w cfg db_path of Inl e \<Rightarrow> False | Inr b \<Rightarrow> b)"

text \<open>\<open>VectorStoreManager.get_vectorstore\<close>\<close>

definition get_vectorstore :: "world \<Rightarrow> app_config \<Rightarrow> py_exception + vectorstore" where
  "get_vectorstore w cfg =
     (let db_path = vector_db_path (data cfg)
      in if \<not> path_exists w db_path \<or> \<not> is_vectorstore_populated w cfg db_path
         then setup_vectorstore w cfg
         else (case get_embedding_model w cfg of
                 Inl e \<Rightarrow> Inl e
               | Inr emb_fn \<Rightarrow>
                   (case chroma_init w db_path emb_fn of
                      Some e \<Rightarrow> Inl e
                    | None \<Rightarrow>
                        Inr \<lparr> persist_directory = db_path,
                              embedding_function = emb_fn \<rparr>)))"

text \<open>
  For stating what \<open>setup_vectorstore\<close> computes: the documents a load contributes
  (none when it raised, the tagged documents otherwise), and what is done with the loaded
  documents: split into chunks of the given size and overlap, obtain the embedding model,
  embed and persist.
\<close>

definition loaded :: "string \<Rightarrow> py_exception + document list \<Rightarrow> document list" where
  "loaded src r = (case r of Inl e \<Rightarrow> [] | Inr docs \<Rightarrow> tag_source src docs)"

definition index_documents ::
  "world \<Rightarrow> app_config \<Rightarrow> nat \<Rightarrow> nat \<Rightarrow> document list \<Rightarrow> py_exception + vectorstore" where
  "index_documents w cfg chunk_size chunk_overlap docs =
     (case split_documents w chunk_size chunk_overlap docs of
        Inl e \<Rightarrow> Inl e
      | Inr chunks \<Rightarrow>
          (case get_embedding_model w cfg of
             Inl e \<Rightarrow> Inl e
           | Inr emb \<Rightarrow>
               (case chroma_from_documents w chunks emb (vector_db_path (data cfg)) of
                  Some e \<Rightarrow> Inl e
                | None \<Rightarrow>
                    Inr \<lparr> persist_directory = vector_db_path (data cfg),
                          embedding_function = emb \<rparr>)))"

text \<open>\<open>DocumentHandler.process_text\<close>\<close>

definition msg_job_too_short :: "int \<Rightarrow> string" where
  "msg_job_too_short m =
     ''Job description text must be at least '' @ str_int m @ '' characters''"

text \<open>\<open>re.sub(r"\s+", " ", s)\<close>: every run of whitespace becomes one space.\<close>

fun collapse_from :: "bool \<Rightarrow> string \<Rightarrow> string" where
  "collapse_from in_run [] = []"
| "collapse_from in_run (c # cs) =
     (if is_space c
      then (if in_run then collapse_from True cs else CHR '' '' # collapse_from True cs)
      else c # collapse_from False cs)"

definition collapse_whitespace :: "string \<Rightarrow> string" where
  "collapse_whitespace s = collapse_from False s"

definition process_text :: "app_config \<Rightarrow> string \<Rightarrow> py_exception + document" where
  "process_text cfg text =
     (let min_length = min_job_text_length (security cfg)
      in if text = [] \<or> int (length (strip text)) < min_length
           then Inl (ValueError (msg_job_too_short min_length))
         else (case validate_job_text cfg (PyStr text) of
                 Inl e \<Rightarrow> Inl e
               | Inr ok \<Rightarrow>
                   Inr \<lparr> page_content = collapse_whitespace (strip text),
                         metadata = [''source'' \<mapsto> ''text_input'', ''type'' \<mapsto> ''job_description''] \<rparr>))"


section \<open>Chat pipeline (\<open>app/modules/rag_pipeline.py\<close>)\<close>

text \<open>
  The fields of the \<open>ChatRAGPipeline\<close> singleton that change after construction. The
  functions below are its methods called one after the other; the locks are not modelled.
\<close>

record chat_pipeline =
  qa_chain :: "chain option"
  chat_history :: "message list option"

definition msg_no_invoke :: string where
  "msg_no_invoke =
     [CHR 0x27] @ ''NoneType'' @ [CHR 0x27] @ '' object has no attribute ''
     @ [CHR 0x27] @ ''invoke'' @ [CHR 0x27]"







definition history_turns :: "chat_pipeline \<Rightarrow> message list" where
  "history_turns s = (case chat_history s of None \<Rightarrow> [] | Some h \<Rightarrow> h)"







section \<open>Summary pipeline (\<open>app/modules/summary_pipeline.py\<close>)\<close>







section \<open>Job matching pipeline (\<open>app/modules/job_matching.py\<close>)\<close>

text \<open>
  The calls \<open>analyze_job_match\<close> makes to the index and to the model are recorded in
  \<open>calls\<close>, in order; this field is not in the source.
\<close>

datatype external_call = GetVectorstore | RetrieverInvoke string | ChainInvoke

record job_matching_analyzer =
  job_llm :: language_model
  matching_chain :: "chain option"
  calls :: "external_call list"

definition build_matching_chain :: "world \<Rightarrow> app_config \<Rightarrow> language_model \<Rightarrow> py_exception + chain" where
  "build_matching_chain w cfg lm =
     (case config_attr ''job_matching_system_prompt'' (job_matching_system_prompt cfg) of
        Inl e \<Rightarrow> Inl e
      | Inr system_prompt \<Rightarrow>
          (case config_attr ''job_matching_analysis_prompt'' (job_matching_analysis_prompt cfg) of
             Inl e \<Rightarrow> Inl e
           | Inr template \<Rightarrow>
               (case py_format w template (candidate_name cfg) of
                  Inl e \<Rightarrow> Inl e
                | Inr analysis_prompt \<Rightarrow>
                    (let full_prompt = system_prompt @ [CHR 0x0A, CHR 0x0A] @ analysis_prompt
                     in case stuff_chain_init w lm full_prompt of
                          Some e \<Rightarrow> Inl e
                        | None \<Rightarrow> Inr (StuffDocumentsChain lm full_prompt)))))"

text \<open>\<open>JobMatchingAnalyzer._initialize_matching_chain\<close>\<close>

definition initialize_matching_chain ::
  "world \<Rightarrow> app_config \<Rightarrow> job_matching_analyzer \<Rightarrow> py_exception + job_matching_analyzer" where
  "initialize_matching_chain w cfg s =
     (case matching_chain s of
        Some c \<Rightarrow> Inr s
      | None \<Rightarrow>
          (case build_matching_chain w cfg (job_llm s) of
             Inl e \<Rightarrow> Inl e
           | Inr c \<Rightarrow> Inr (s\<lparr>matching_chain := Some c\<rparr>)))"

text \<open>The two dictionaries \<open>analyze_job_match\<close> returns.\<close>

datatype match_result =
  MatchOk (analysis: string) (job_source: string) (match_timestamp: "string option")
    (relevant_sections: "string list")
| MatchError (analysis: string) (error_text: string) (job_source: string)

definition msg_match_fallback :: string where
  "msg_match_fallback = ''Unable to complete job matching analysis. Please try again.''"

text \<open>
  The \<open>try\<close> block of \<open>analyze_job_match\<close>: the external calls made, and the exception
  raised or the dictionary returned.
\<close>

definition analyze_try ::
  "world \<Rightarrow> app_config \<Rightarrow> chain option \<Rightarrow> document
   \<Rightarrow> external_call list \<times> (py_exception + match_result)" where
  "analyze_try w cfg ch job_description =
     (case get_vectorstore w cfg of
        Inl e \<Rightarrow> ([GetVectorstore], Inl e)
      | Inr vs \<Rightarrow>
          (case retriever_invoke w vs (retrieval_k cfg) (page_content job_description) of
             Inl e \<Rightarrow> ([GetVectorstore, RetrieverInvoke (page_content job_description)], Inl e)
           | Inr relevant_docs \<Rightarrow>
               (let job_doc =
                      \<lparr> page_content =
                          ''JOB DESCRIPTION:'' @ [CHR 0x0A] @ page_content job_description,
                        metadata = [''source'' \<mapsto> ''job_description'',
                                    ''type'' \<mapsto> ''job_requirements''] \<rparr>
                in case validate_job_text cfg (PyStr (page_content job_doc)) of
                     Inl e \<Rightarrow>
                       ([GetVectorstore, RetrieverInvoke (page_content job_description)], Inl e)
                   | Inr ok \<Rightarrow>
                       (let all_docs = job_doc # relevant_docs
                        in case (case ch of
                                   None \<Rightarrow> Inl (OtherException msg_no_invoke)
                                 | Some c \<Rightarrow> stuff_chain_invoke w c all_docs) of
                             Inl e \<Rightarrow>
                               ([GetVectorstore, RetrieverInvoke (page_content job_description),
                                 ChainInvoke], Inl e)
                           | Inr analysis_result \<Rightarrow>
                               ([GetVectorstore, RetrieverInvoke (page_content job_description),
                                 ChainInvoke],
                                Inr (MatchOk analysis_result (metadata_source job_description)
                                       (map_option start_time (current_run w))
                                       (map metadata_source relevant_docs)))))))"

text \<open>\<open>JobMatchingAnalyzer.analyze_job_match\<close>\<close>

definition analyze_job_match ::
  "world \<Rightarrow> app_config \<Rightarrow> job_matching_analyzer \<Rightarrow> document
   \<Rightarrow> job_matching_analyzer \<times> (py_exception + match_result)" where
  "analyze_job_match w cfg s job_description =
     (case initialize_matching_chain w cfg s of
        Inl e \<Rightarrow> (s, Inl e)
      | Inr s1 \<Rightarrow>
          (case analyze_try w cfg (matching_chain s1) job_description of
             (made, Inr result) \<Rightarrow> (s1\<lparr>calls := calls s1 @ made\<rparr>, Inr result)
           | (made, Inl e) \<Rightarrow>
               (s1\<lparr>calls := calls s1 @ made\<rparr>,
                Inr (MatchError msg_match_fallback (str_exc e)
                       (metadata_source job_description)))))"

text \<open>\<open>process_job_description\<close>\<close>

definition msg_job_required :: string where
  "msg_job_required = ''Job description text is required''"

definition process_job_description :: "app_config \<Rightarrow> string \<Rightarrow> py_exception + document" where
  "process_job_description cfg text =
     (if text = [] then Inl (ValueError msg_job_required) else process_text cfg text)"

text \<open>
  The singleton and the module-level \<open>analyze_job_match\<close>: the analyzer is constructed
  on first use, and its constructor asks for the language model.
\<close>

definition get_job_analyzer ::
  "world \<Rightarrow> app_config \<Rightarrow> job_matching_analyzer option \<Rightarrow> py_exception + job_matching_analyzer" where
  "get_job_analyzer w cfg inst =
     (case inst of
        Some a \<Rightarrow> Inr a
      | None \<Rightarrow>
          (case get_language_model w cfg of
             Inl e \<Rightarrow> Inl e
           | Inr lm \<Rightarrow> Inr \<lparr> job_llm = lm, matching_chain = None, calls = [] \<rparr>))"

definition analyze_job_match_module ::
  "world \<Rightarrow> app_config \<Rightarrow> job_matching_analyzer option \<Rightarrow> document
   \<Rightarrow> job_matching_analyzer option \<times> (py_exception + match_result)" where
  "analyze_job_match_module w cfg inst job_description =
     (case get_job_analyzer w cfg inst of
        Inl e \<Rightarrow> (inst, Inl e)
      | Inr analyzer \<Rightarrow>
          (case analyze_job_match w cfg analyzer job_description of
             (analyzer1, r) \<Rightarrow> (Some analyzer1, r)))"

section \<open>The job-match route (\<open>app/api/routes.py\<close>)\<close>

text \<open>\<open>str(text_input)\<close>\<close>

fun py_str :: "py_value \<Rightarrow> string" where
  "py_str (PyStr s) = s"
| "py_str PyNone = ''None''"
| "py_str (PyInt i) = str_int i"
| "py_str (PyBool b) = (if b then ''True'' else ''False'')"

record job_match_response =
  response_analysis :: string
  response_source :: string
  response_timestamp :: "string option"
  response_relevant_sections :: "string list"

datatype http_result = Response job_match_response | HTTPException int string

text \<open>The two \<open>except\<close> clauses of \<open>job_match_endpoint\<close>.\<close>

fun http_error :: "py_exception \<Rightarrow> http_result" where
  "http_error (ValueError m) = HTTPException 400 m"
| "http_error (OtherException m) = HTTPException 500 ''Job matching analysis failed''"

fun response_of :: "match_result \<Rightarrow> job_match_response" where
  "response_of (MatchOk a src ts secs) =
     \<lparr> response_analysis = a, response_source = src, response_timestamp = ts,
       response_relevant_sections = secs \<rparr>"
| "response_of (MatchError a err src) =
     \<lparr> response_analysis = a, response_source = src, response_timestamp = None,
       response_relevant_sections = [] \<rparr>"

text \<open>
  \<open>job_match_endpoint\<close>, from the value found under \<open>"text"\<close> in the request body; the
  analytics sink is not modelled.
\<close>

definition job_match_endpoint ::
  "world \<Rightarrow> app_config \<Rightarrow> job_matching_analyzer option \<Rightarrow> py_value
   \<Rightarrow> job_matching_analyzer option \<times> http_result" where
  "job_match_endpoint w cfg inst text_input =
     (case process_job_description cfg (py_str text_input) of
        Inl e \<Rightarrow> (inst, http_error e)
      | Inr job_description \<Rightarrow>
          (case analyze_job_match_module w cfg inst job_description of
             (inst1, Inl e) \<Rightarrow> (inst1, http_error e)
           | (inst1, Inr analysis_result) \<Rightarrow> (inst1, Response (response_of analysis_result))))"

section \<open>Example worlds\<close>

text \<open>\<open>PurePath.suffix\<close> of a POSIX path, for the example worlds.\<close>

definition pathlib_suffix :: "string \<Rightarrow> string" where
  "pathlib_suffix p =
     (let name = rev (takeWhile (\<lambda>c. c \<noteq> CHR ''/'') (rev p));
          ext = rev (takeWhile (\<lambda>c. c \<noteq> CHR ''.'') (rev name))
      in if CHR ''.'' \<notin> set name \<or> ext = [] \<or> length ext + 1 = length name then []
         else CHR ''.'' # ext)"

definition example_document :: document where
  "example_document = \<lparr> page_content = ''Ten years of Python.'', metadata = Map.empty \<rparr>"

definition api_key_error :: py_exception where
  "api_key_error = OtherException ''The api_key client option must be set''"

text \<open>
  Every collaborator works: the index directory is populated, the documents load, the
  models answer.
\<close>

definition working_world :: world where
  "working_world =
     \<lparr> path_exists = (\<lambda>p. True),
       listdir = (\<lambda>p. Inr [''chroma.sqlite3'']),
       path_suffix = pathlib_suffix,
       pdf_load = (\<lambda>p. Inr [example_document]),
       text_load = (\<lambda>p enc. Inr [example_document]),
       split_documents = (\<lambda>chunk_size chunk_overlap docs. Inr docs),
       embeddings_init = (\<lambda>m. None),
       llm_init = (\<lambda>m. None),
       chroma_init = (\<lambda>p m. None),
       chroma_from_documents = (\<lambda>docs m p. None),
       collection_count = (\<lambda>vs. Inr 12),
       retriever_invoke = (\<lambda>vs k q. Inr [example_document]),
       format_fields = (\<lambda>template name. Inr template),
       stuff_chain_init = (\<lambda>m prompt. None),
       history_aware_retriever_init = (\<lambda>vs m. None),
       retrieval_chain_init = (\<lambda>vs m prompt. None),
       retrieval_chain_invoke = (\<lambda>c q h. Inr (''Ten years.'', [example_document])),
       stuff_chain_invoke = (\<lambda>c docs. Inr ''A strong match.''),
       current_run = None \<rparr>"

text \<open>The index directory exists and is empty; everything else works.\<close>

definition empty_index_world :: world where
  "empty_index_world = working_world \<lparr> listdir := (\<lambda>p. Inr []) \<rparr>"

text \<open>The index directory exists and is empty, and no API key is configured.\<close>

definition no_api_key_world :: world where
  "no_api_key_world =
     working_world
       \<lparr> listdir := (\<lambda>p. Inr []),
         embeddings_init := (\<lambda>m. Some api_key_error),
         llm_init := (\<lambda>m. Some api_key_error) \<rparr>"




definition new_job_analyzer :: job_matching_analyzer where
  "new_job_analyzer =
     \<lparr> job_llm = ChatOpenAI ''gpt-4o-mini'', matching_chain = None, calls = [] \<rparr>"



section \<open>Properties of the string helpers\<close>














lemma except_irrelevant: "validate_query_except (ValueError msg_irrelevant) = ValueError msg_irrelevant"
  by code_simp

section \<open>Properties of the validation gate\<close>









lemma dropWhile_replicate_not: "\<not> P c \<Longrightarrow> dropWhile P (replicate n c) = replicate n c"
  by (cases n) simp_all

lemma strip_replicate_nonspace: "\<not> is_space c \<Longrightarrow> strip (replicate n c) = replicate n c"
  by (simp add: strip_def dropWhile_replicate_not)



text \<open>
  C9. Every query that \<open>validate_query_input\<close> accepts is returned as it was given: no
  trimming, sanitising or rewriting.
\<close>

theorem validate_query_input_returns_input:
  "validate_query_input g cfg query = Inr r \<Longrightarrow> r = query"
  by (auto simp: validate_query_input_def validate_query_try_def
      split: sum.splits option.splits if_splits)

theorem validate_query_input_returns_input_witness:
  "validate_query_input no_guardrails default_config ''  What is your experience with Python? ''
     = Inr ''  What is your experience with Python? ''"
proof -
  have h: "validate_query_input no_guardrails default_config
      ''  What is your experience with Python? '' = Inr ''  What is your experience with Python? ''"
    by code_simp
  show ?thesis using validate_query_input_returns_input [OF h] h by simp
qed

text \<open>
  C4. \<open>validate_response_output\<close> never raises: it returns the response unchanged when
  every output check passes and the configured fallback string when a check raises.
\<close>

theorem validate_response_output_never_raises:
  "validate_response_output g cfg response =
     Inr (if response_content_check g response = None then response
          else chat_fallback_response cfg)"
  by (simp add: validate_response_output_def split: option.splits)




text \<open>
  C10. \<open>validate_job_text\<close> returns \<open>False\<close>, without raising, exactly when the input
  is not a string, is empty, or is shorter than the configured minimum after trimming.
  Otherwise text longer than the maximum, text without any English or German keyword,
  text with a dangerous tag and text with an \<open>on...=\<close> attribute each raise
  \<open>ValueError\<close>, and \<open>True\<close> is returned exactly when none of these conditions holds.
\<close>

theorem validate_job_text_outcomes:
  "(\<not> is_str v \<longrightarrow> validate_job_text cfg v = Inr False)
   \<and> (validate_job_text cfg (PyStr raw) = Inr False
        \<longleftrightarrow> raw = [] \<or> int (length (strip raw)) < min_job_text_length (security cfg))
   \<and> (\<not> (raw = [] \<or> int (length (strip raw)) < min_job_text_length (security cfg))
        \<and> (int (length (strip raw)) > max_job_text_length (security cfg)
           \<or> \<not> (search_keywords english_keywords (strip raw)
                 \<or> search_keywords german_keywords (strip raw))
           \<or> list_ex (\<lambda>pattern. search_literal pattern (strip raw)) dangerous_tags
           \<or> search_event (strip raw))
        \<longrightarrow> (\<exists>m. validate_job_text cfg (PyStr raw) = Inl (ValueError m)))
   \<and> (validate_job_text cfg (PyStr raw) = Inr True
        \<longleftrightarrow> \<not> (raw = [] \<or> int (length (strip raw)) < min_job_text_length (security cfg))
            \<and> \<not> (int (length (strip raw)) > max_job_text_length (security cfg)
                 \<or> \<not> (search_keywords english_keywords (strip raw)
                       \<or> search_keywords german_keywords (strip raw))
                 \<or> list_ex (\<lambda>pattern. search_literal pattern (strip raw)) dangerous_tags
                 \<or> search_event (strip raw)))"
proof -
  have 1: "\<not> is_str v \<longrightarrow> validate_job_text cfg v = Inr False"
    by (cases v) (simp_all add: validate_job_text_def)
  show ?thesis
    apply (intro conjI 1)
      apply (simp_all add: validate_job_text_def Let_def)
    done
qed

theorem validate_job_text_outcomes_witness:
  "validate_job_text default_config PyNone = Inr False
   \<and> (\<exists>m. validate_job_text default_config
          (PyStr ''We are hiring an engineer <script>alert(1)</script> requirements: Python.'')
        = Inl (ValueError m))"
proof -
  let ?raw = "''We are hiring an engineer <script>alert(1)</script> requirements: Python.''"
  have a: "\<not> is_str PyNone" by simp
  have b: "\<not> (?raw = [] \<or> int (length (strip ?raw)) < min_job_text_length (security default_config))"
    by code_simp
  have c: "list_ex (\<lambda>pattern. search_literal pattern (strip ?raw)) dangerous_tags"
    by code_simp
  from validate_job_text_outcomes [of PyNone default_config ?raw] a b c
  show ?thesis by blast
qed

section \<open>Properties of the retrieval index\<close>

lemma probe_empty_directory:
  "listdir w p = Inr [] \<Longrightarrow> populated_probe w cfg p = Inr False"
  by (simp add: populated_probe_def)

lemma not_populated_when_probe_fails:
  "listdir w p = Inr [] \<or> (\<exists>e. populated_probe w cfg p = Inl e)
     \<Longrightarrow> \<not> is_vectorstore_populated w cfg p"
  by (auto simp: is_vectorstore_populated_def probe_empty_directory)

lemma get_vectorstore_rebuilds:
  "\<not> is_vectorstore_populated w cfg (vector_db_path (data cfg))
     \<Longrightarrow> get_vectorstore w cfg = setup_vectorstore w cfg"
  by (simp add: get_vectorstore_def)

lemma setup_vectorstore_eq:
  "setup_vectorstore w cfg =
     index_documents w cfg 1000 200
       (loaded ''cv'' (cv_loader_load w cfg)
        @ loaded ''about_me'' (text_load w (about_me_path (data cfg)) None))"
  by (simp add: setup_vectorstore_def index_documents_def loaded_def load_cv_documents_def
      load_about_documents_def split: sum.splits option.splits)


lemma default_embedding_not_ollama: "\<not> str_contains ''ollama'' (lower ''text-embedding-3-small'')"
  by code_simp


lemma get_embedding_model_openai:
  assumes "embedding_model cfg = ''text-embedding-3-small''"
  shows "get_embedding_model w cfg =
           (case embeddings_init w (OpenAIEmbeddings ''text-embedding-3-small'') of
              Some e \<Rightarrow> Inl e
            | None \<Rightarrow> Inr (OpenAIEmbeddings ''text-embedding-3-small''))"
  using assms default_embedding_not_ollama by (simp add: get_embedding_model_def Let_def split: option.splits)



text \<open>
  C5, as amended. When the index directory is empty, or anything raises during the
  population probe, the probe answers "not populated" without propagating the failure, and
  \<open>get_vectorstore\<close> returns what the full build \<open>setup_vectorstore\<close> returns: the built
  index, or the exception of the build itself.
\<close>

theorem get_vectorstore_probe_failsafe:
  "listdir w (vector_db_path (data cfg)) = Inr []
     \<or> (\<exists>e. populated_probe w cfg (vector_db_path (data cfg)) = Inl e)
   \<Longrightarrow> \<not> is_vectorstore_populated w cfg (vector_db_path (data cfg))
       \<and> get_vectorstore w cfg = setup_vectorstore w cfg"
  using not_populated_when_probe_fails [of w "vector_db_path (data cfg)" cfg]
    get_vectorstore_rebuilds [of w cfg]
  by blast

lemma setup_empty_index_world:
  "setup_vectorstore empty_index_world default_config =
     Inr \<lparr> persist_directory = ''data/vector_db'',
           embedding_function = OpenAIEmbeddings ''text-embedding-3-small'' \<rparr>"
  by (simp add: setup_vectorstore_eq index_documents_def get_embedding_model_openai
      empty_index_world_def working_world_def default_config_def)

theorem get_vectorstore_probe_failsafe_witness:
  "listdir empty_index_world (vector_db_path (data default_config)) = Inr []
   \<and> get_vectorstore empty_index_world default_config =
       Inr \<lparr> persist_directory = ''data/vector_db'',
             embedding_function = OpenAIEmbeddings ''text-embedding-3-small'' \<rparr>"
proof -
  have h: "listdir empty_index_world (vector_db_path (data default_config)) = Inr []"
    by (simp add: empty_index_world_def)
  from get_vectorstore_probe_failsafe [of empty_index_world default_config] h
  have "get_vectorstore empty_index_world default_config
          = setup_vectorstore empty_index_world default_config"
    by blast
  with h show ?thesis by (simp add: setup_empty_index_world)
qed

theorem get_vectorstore_empty_directory_counterexample:
  "path_exists no_api_key_world (vector_db_path (data default_config))
   \<and> listdir no_api_key_world (vector_db_path (data default_config)) = Inr []
   \<and> get_vectorstore no_api_key_world default_config = Inl api_key_error"
proof -
  have 1: "listdir no_api_key_world (vector_db_path (data default_config)) = Inr []"
    by (simp add: no_api_key_world_def)
  have 2: "path_exists no_api_key_world (vector_db_path (data default_config))"
    by (simp add: no_api_key_world_def working_world_def)
  have 3: "get_vectorstore no_api_key_world default_config
             = setup_vectorstore no_api_key_world default_config"
    using 1 by (simp add: get_vectorstore_rebuilds not_populated_when_probe_fails)
  have 4: "setup_vectorstore no_api_key_world default_config = Inl api_key_error"
    by (simp add: setup_vectorstore_eq index_documents_def get_embedding_model_openai
        no_api_key_world_def working_world_def default_config_def)
  from 1 2 3 4 show ?thesis by simp
qed



section \<open>Properties of the job-match route\<close>

lemma process_job_description_short:
  assumes "int (length (strip text)) < min_job_text_length (security cfg)"
  shows "process_job_description cfg text =
           Inl (ValueError (if text = [] then msg_job_required
                            else msg_job_too_short (min_job_text_length (security cfg))))"
  using assms by (simp add: process_job_description_def process_text_def)

text \<open>
  C7. A job-match request whose text, after trimming, is shorter than the configured
  minimum is answered with HTTP 400 carrying the message of the \<open>ValueError\<close> raised by
  the length check (by the emptiness check for the empty text); the analyzer singleton,
  and with it the record of calls to the index and the model, is left as it was, whatever
  the collaborators would have answered.
\<close>

theorem job_match_short_text_rejected:
  "int (length (strip (py_str text_input))) < min_job_text_length (security cfg)
   \<Longrightarrow> job_match_endpoint w cfg inst text_input =
        (inst, HTTPException 400
                 (if py_str text_input = [] then msg_job_required
                  else msg_job_too_short (min_job_text_length (security cfg))))"
  by (simp add: job_match_endpoint_def process_job_description_short)

theorem job_match_short_text_rejected_witness:
  "job_match_endpoint working_world default_config (Some new_job_analyzer)
       (PyStr (replicate 40 (CHR ''x'')))
     = (Some new_job_analyzer,
        HTTPException 400 ''Job description text must be at least 50 characters'')"
proof -
  have x: "\<not> is_space (CHR ''x'')" by (simp add: is_space_def)
  have h: "int (length (strip (py_str (PyStr (replicate 40 (CHR ''x''))))))
             < min_job_text_length (security default_config)"
    using x by (simp add: strip_replicate_nonspace default_config_def)
  have m: "msg_job_too_short (min_job_text_length (security default_config))
             = ''Job description text must be at least 50 characters''"
    by code_simp
  from job_match_short_text_rejected [OF h, of working_world "Some new_job_analyzer"]
  show ?thesis by (simp add: m)
qed

section \<open>Properties of the pipelines\<close>








lemma history_turns_qa_chain_update [simp]:
  "history_turns (s\<lparr>qa_chain := x\<rparr>) = history_turns s"
  by (simp add: history_turns_def)

lemma history_turns_set [simp]:
  "history_turns (s\<lparr>chat_history := Some h\<rparr>) = h"
  by (simp add: history_turns_def)





















section \<open>The pipelines in the example worlds\<close>























end
